theory Spec2Isabelle
  imports Complex_Main
begin

section \<open>The truss model of Truss\_stem\_solved.py\<close>

text \<open>
  The theory embeds the model and controller classes of \<^verbatim>\<open>Truss_stem_solved.py\<close>:
  \<^verbatim>\<open>Position\<close>, \<^verbatim>\<open>Material\<close>, \<^verbatim>\<open>Node\<close>, \<^verbatim>\<open>Link\<close>, \<^verbatim>\<open>TrussModel\<close>, the line loop of
  \<^verbatim>\<open>TrussController.ImportFromFile\<close>, \<^verbatim>\<open>calcLinkVals\<close> and \<^verbatim>\<open>TrussView.displayReport\<close>.

  Conventions of the embedding.
  \<^item> A Python \<^verbatim>\<open>float\<close> is a \<open>real\<close>. The controller only stores, subtracts, compares and
    formats these numbers; rounding, overflow, infinities and NaN are outside the model.
  \<^item> An attribute that may hold \<^verbatim>\<open>None\<close> is an \<open>option\<close>.
  \<^item> A raised exception is \<open>Inl\<close> of a \<open>py_error\<close>; a normal return is \<open>Inr\<close>.
  \<^item> Mutation of \<^verbatim>\<open>self.truss\<close> is state passing: a function takes the model and returns
    the new one.
  \<^item> Text is ASCII: \<^verbatim>\<open>str.strip\<close> and \<^verbatim>\<open>str.lower\<close> are modelled on ASCII characters.
  \<^item> The built-in \<^verbatim>\<open>float(s)\<close> and the format \<^verbatim>\<open>'{:0.2f}'.format(v)\<close> are parameters
    \<open>pf :: string \<Rightarrow> real option\<close> (\<open>None\<close> is \<^verbatim>\<open>ValueError\<close>) and
    \<open>fmt :: real \<Rightarrow> string\<close>; every theorem holds for all of them.
\<close>

datatype py_error = ValueError | IndexError | TypeError | AttributeError

subsection \<open>Strings\<close>

text \<open>The characters \<^verbatim>\<open>str.isspace\<close> accepts below code point 128.\<close>

definition is_space :: "char \<Rightarrow> bool" where
  "is_space c =
     (c = CHR '' '' \<or> c = CHR 0x09 \<or> c = CHR 0x0A \<or> c = CHR 0x0B \<or> c = CHR 0x0C \<or>
      c = CHR 0x0D \<or> c = CHR 0x1C \<or> c = CHR 0x1D \<or> c = CHR 0x1E \<or> c = CHR 0x1F)"

text \<open>\<^verbatim>\<open>s.strip(chars)\<close>: drop the characters satisfying \<open>p\<close> at both ends.\<close>

definition strip_where :: "(char \<Rightarrow> bool) \<Rightarrow> string \<Rightarrow> string" where
  "strip_where p s = rev (dropWhile p (rev (dropWhile p s)))"

definition str_strip :: "string \<Rightarrow> string" where
  "str_strip s = strip_where is_space s"

definition char_lower :: "char \<Rightarrow> char" where
  "char_lower c =
     (let n = (of_char c :: nat) in if 65 \<le> n \<and> n \<le> 90 then char_of (n + 32) else c)"

definition str_lower :: "string \<Rightarrow> string" where
  "str_lower s = map char_lower s"

text \<open>\<^verbatim>\<open>s.split(sep)\<close> for a one-character separator: never empty.\<close>

fun str_split :: "char \<Rightarrow> string \<Rightarrow> string list" where
  "str_split sep [] = [[]]"
| "str_split sep (c # s) =
     (if c = sep then [] # str_split sep s
      else (case str_split sep s of
              [] \<Rightarrow> [[c]]
            | w # ws \<Rightarrow> (c # w) # ws))"

text \<open>\<^verbatim>\<open>xs[i]\<close> for \<open>i \<ge> 0\<close>: \<^verbatim>\<open>IndexError\<close> out of range.\<close>

definition index :: "'a list \<Rightarrow> nat \<Rightarrow> py_error + 'a" where
  "index xs i = (if i < length xs then Inr (xs ! i) else Inl IndexError)"

text \<open>
  \<^verbatim>\<open>map(float, xs)\<close>, consumed by a tuple assignment: the first field that \<^verbatim>\<open>float\<close> rejects
  raises \<^verbatim>\<open>ValueError\<close> (here \<open>None\<close>), and so does a wrong number of fields at the
  assignment; the two are the same exception.
\<close>

fun map_float :: "(string \<Rightarrow> real option) \<Rightarrow> string list \<Rightarrow> real list option" where
  "map_float pf [] = Some []"
| "map_float pf (s # ss) =
     (case pf s of
        None \<Rightarrow> None
      | Some v \<Rightarrow> (case map_float pf ss of None \<Rightarrow> None | Some vs \<Rightarrow> Some (v # vs)))"

subsection \<open>Position\<close>

text \<open>
  The constructor, \<^verbatim>\<open>__sub__\<close>, \<^verbatim>\<open>mag\<close> and \<^verbatim>\<open>getAngleRad\<close> are embedded: \<^verbatim>\<open>calcLinkVals\<close>
  calls them. The numbers they return are those of exact arithmetic; nothing below depends
  on their values beyond the worked examples. The other operators of the class and
  \<^verbatim>\<open>normalize\<close> are not called by the controller and are not embedded: what they compute is
  a matter of floating-point rounding, which this model does not represent.
\<close>

record Position =
  pos_x :: real
  pos_y :: real
  pos_z :: real

definition Position_init ::
  "(real \<times> real \<times> real) option \<Rightarrow> real option \<Rightarrow> real option \<Rightarrow> real option \<Rightarrow> Position" where
  "Position_init pos x y z =
     (let (x0, y0, z0) = (case pos of None \<Rightarrow> (0, 0, 0) | Some t \<Rightarrow> t)
      in \<lparr>pos_x = (case x of Some v \<Rightarrow> v | None \<Rightarrow> x0),
          pos_y = (case y of Some v \<Rightarrow> v | None \<Rightarrow> y0),
          pos_z = (case z of Some v \<Rightarrow> v | None \<Rightarrow> z0)\<rparr>)"

definition Position_sub :: "Position \<Rightarrow> Position \<Rightarrow> Position" where
  "Position_sub a b =
     Position_init (Some (pos_x a - pos_x b, pos_y a - pos_y b, pos_z a - pos_z b)) None None None"

definition mag :: "Position \<Rightarrow> real" where
  "mag p = sqrt ((pos_x p)\<^sup>2 + (pos_y p)\<^sup>2 + (pos_z p)\<^sup>2)"

definition getAngleRad :: "Position \<Rightarrow> real" where
  "getAngleRad p =
     (let l = mag p in
      if l \<le> 0 then 0
      else if pos_y p \<ge> 0 then arccos (pos_x p / l)
      else 2 * pi - arccos (pos_x p / l))"

subsection \<open>Material, Node, Link, TrussModel\<close>

record Material =
  uts :: "real option"
  ys :: "real option"
  E_modulus :: "real option"
  staticFactor :: "real option"

definition Material_init ::
  "real option \<Rightarrow> real option \<Rightarrow> real option \<Rightarrow> real option \<Rightarrow> Material" where
  "Material_init u y modulus sf = \<lparr>uts = u, ys = y, E_modulus = modulus, staticFactor = sf\<rparr>"

record Node =
  node_name :: string
  position :: Position

definition Node_init :: "string \<Rightarrow> Position option \<Rightarrow> Node" where
  "Node_init nm pos =
     \<lparr>node_name = nm,
      position = (case pos of Some p \<Rightarrow> p | None \<Rightarrow> Position_init None None None None)\<rparr>"

record Link =
  link_name :: string
  node1_Name :: string
  node2_Name :: string
  link_length :: "real option"
  angleRad :: "real option"

text \<open>
  \<^verbatim>\<open>Link.__init__(self, name, node1, node2, length, angleRad)\<close> assigns the constants
  \<^verbatim>\<open>""\<close>, \<^verbatim>\<open>None\<close>, \<^verbatim>\<open>None\<close> to \<^verbatim>\<open>name\<close>, \<^verbatim>\<open>length\<close>, \<^verbatim>\<open>angleRad\<close>.
\<close>

definition Link_init ::
  "string \<Rightarrow> string \<Rightarrow> string \<Rightarrow> real option \<Rightarrow> real option \<Rightarrow> Link" where
  "Link_init nm node1 node2 len ang =
     \<lparr>link_name = '''', node1_Name = node1, node2_Name = node2,
      link_length = None, angleRad = None\<rparr>"

record TrussModel =
  title :: "string option"
  links :: "Link list"
  nodes :: "Node list"
  material :: Material

definition TrussModel_init :: TrussModel where
  "TrussModel_init =
     \<lparr>title = None, links = [], nodes = [], material = Material_init None None None None\<rparr>"

subsection \<open>TrussController\<close>

fun hasNode_loop :: "Node list \<Rightarrow> string \<Rightarrow> bool" where
  "hasNode_loop [] nm = False"
| "hasNode_loop (n # ns) nm = (if node_name n = nm then True else hasNode_loop ns nm)"

definition hasNode :: "TrussModel \<Rightarrow> string \<Rightarrow> bool" where
  "hasNode m nm = hasNode_loop (nodes m) nm"

fun getNode_loop :: "Node list \<Rightarrow> string \<Rightarrow> Node option" where
  "getNode_loop [] nm = None"
| "getNode_loop (n # ns) nm = (if node_name n = nm then Some n else getNode_loop ns nm)"

definition getNode :: "TrussModel \<Rightarrow> string \<Rightarrow> Node option" where
  "getNode m nm = getNode_loop (nodes m) nm"

definition addNode :: "TrussModel \<Rightarrow> Node \<Rightarrow> TrussModel" where
  "addNode m n = m\<lparr>nodes := nodes m @ [n]\<rparr>"

definition addLink :: "TrussModel \<Rightarrow> Link \<Rightarrow> TrussModel" where
  "addLink m l = m\<lparr>links := links m @ [l]\<rparr>"

text \<open>
  The body of the \<^verbatim>\<open>try\<close> in \<^verbatim>\<open>ImportFromFile\<close>, for one stripped line that is neither
  empty nor a comment. Every branch reads and converts its fields before it assigns to
  the model, so a raised exception leaves the model as it was.
\<close>

definition try_body ::
  "(string \<Rightarrow> real option) \<Rightarrow> TrussModel \<Rightarrow> string \<Rightarrow> py_error + TrussModel" where
  "try_body pf m line =
     (let parts = str_split CHR '','' line in
      case index parts 0 of
        Inl e \<Rightarrow> Inl e
      | Inr p0 \<Rightarrow>
          let keyword = str_lower (str_strip p0) in
          if keyword = ''title'' then
            (case index parts 1 of
               Inl e \<Rightarrow> Inl e
             | Inr p1 \<Rightarrow>
                 Inr (m\<lparr>title := Some (strip_where (\<lambda>c. c = CHR 0x27) (str_strip p1))\<rparr>))
          else if keyword = ''material'' then
            (case map_float pf (drop 1 parts) of
               Some [u, y, modulus] \<Rightarrow>
                 Inr (m\<lparr>material := Material_init (Some u) (Some y) (Some modulus) None\<rparr>)
             | _ \<Rightarrow> Inl ValueError)
          else if keyword = ''static_factor'' then
            (case index parts 1 of
               Inl e \<Rightarrow> Inl e
             | Inr p1 \<Rightarrow>
                 (case pf p1 of
                    None \<Rightarrow> Inl ValueError
                  | Some v \<Rightarrow> Inr (m\<lparr>material := (material m)\<lparr>staticFactor := Some v\<rparr>\<rparr>)))
          else if keyword = ''node'' then
            (case index parts 1 of
               Inl e \<Rightarrow> Inl e
             | Inr p1 \<Rightarrow>
                 let nm = str_strip p1 in
                 (case map_float pf (drop 2 parts) of
                    Some [x, y] \<Rightarrow>
                      if \<not> hasNode m nm
                      then Inr (addNode m
                             (Node_init nm (Some (Position_init None (Some x) (Some y) None))))
                      else Inr m
                  | _ \<Rightarrow> Inl ValueError))
          else if keyword = ''link'' then
            (case index parts 1 of
               Inl e \<Rightarrow> Inl e
             | Inr p1 \<Rightarrow>
                 (case index parts 2 of
                    Inl e \<Rightarrow> Inl e
                  | Inr p2 \<Rightarrow>
                      (case index parts 3 of
                         Inl e \<Rightarrow> Inl e
                       | Inr p3 \<Rightarrow>
                           Inr (addLink m
                                  (Link_init p1 (str_strip p2) (str_strip p3) None None)))))
          else Inr m)"

text \<open>
  The \<^verbatim>\<open>for line in lines\<close> loop. The state is the model and the lines reported by the
  \<^verbatim>\<open>except ValueError\<close> handler. An exception that the handler does not catch leaves
  the loop (and \<^verbatim>\<open>ImportFromFile\<close>) at once: the result carries it, with the state
  reached so far.
\<close>

definition is_comment :: "string \<Rightarrow> bool" where
  "is_comment line = (case line of [] \<Rightarrow> False | c # cs \<Rightarrow> c = CHR ''#'')"

fun import_loop ::
  "(string \<Rightarrow> real option) \<Rightarrow> TrussModel \<times> string list \<Rightarrow> string list
     \<Rightarrow> (TrussModel \<times> string list) \<times> py_error option" where
  "import_loop pf (m, ds) [] = ((m, ds), None)"
| "import_loop pf (m, ds) (raw # rest) =
     (let line = str_strip raw in
      if is_comment line \<or> line = [] then import_loop pf (m, ds) rest
      else (case try_body pf m line of
              Inr m' \<Rightarrow> import_loop pf (m', ds) rest
            | Inl e \<Rightarrow>
                if e = ValueError then import_loop pf (m, ds @ [line]) rest
                else ((m, ds), Some e)))"

text \<open>\<^verbatim>\<open>calcLinkVals\<close>: the body of its loop for one link, then the loop.\<close>

definition calcLink :: "TrussModel \<Rightarrow> Link \<Rightarrow> Link" where
  "calcLink m l =
     (let n1 = (if hasNode m (node1_Name l) then getNode m (node1_Name l) else None);
          n2 = (if hasNode m (node2_Name l) then getNode m (node2_Name l) else None)
      in case (n1, n2) of
           (Some a, Some b) \<Rightarrow>
             (let r = Position_sub (position b) (position a)
              in l\<lparr>link_length := Some (mag r), angleRad := Some (getAngleRad r)\<rparr>)
         | _ \<Rightarrow> l)"

definition calcLinkVals :: "TrussModel \<Rightarrow> TrussModel" where
  "calcLinkVals m = m\<lparr>links := map (calcLink m) (links m)\<rparr>"

subsection \<open>TrussView.displayReport\<close>

text \<open>\<^verbatim>\<open>'{:0.2f}'.format(v)\<close>: \<^verbatim>\<open>TypeError\<close> when \<open>v\<close> is \<^verbatim>\<open>None\<close>.\<close>

definition fmt_opt :: "(real \<Rightarrow> string) \<Rightarrow> real option \<Rightarrow> py_error + string" where
  "fmt_opt fmt v = (case v of None \<Rightarrow> Inl TypeError | Some r \<Rightarrow> Inr (fmt r))"

definition report_header :: "(real \<Rightarrow> string) \<Rightarrow> TrussModel \<Rightarrow> py_error + string" where
  "report_header fmt truss =
     (let st = CHR 0x09 # ''Truss Design Report'' @ [CHR 0x0A];
          st = st @ ''Title:  '' @ (case title truss of None \<Rightarrow> ''None'' | Some t \<Rightarrow> t)
                 @ [CHR 0x0A]
      in case fmt_opt fmt (staticFactor (material truss)) of
           Inl e \<Rightarrow> Inl e
         | Inr s1 \<Rightarrow>
      (case fmt_opt fmt (uts (material truss)) of
           Inl e \<Rightarrow> Inl e
         | Inr s2 \<Rightarrow>
      (case fmt_opt fmt (ys (material truss)) of
           Inl e \<Rightarrow> Inl e
         | Inr s3 \<Rightarrow>
      (case fmt_opt fmt (E_modulus (material truss)) of
           Inl e \<Rightarrow> Inl e
         | Inr s4 \<Rightarrow>
             Inr (st @ ''Static Factor of Safety:  '' @ s1 @ [CHR 0x0A]
                     @ ''Ultimate Strength:  '' @ s2 @ [CHR 0x0A]
                     @ ''Yield Strength:  '' @ s3 @ [CHR 0x0A]
                     @ ''Modulus of Elasticity:  '' @ s4 @ [CHR 0x0A]
                     @ ''_____________Link Summary________________'' @ [CHR 0x0A]
                     @ ''Link'' @ [CHR 0x09] @ ''(1)'' @ [CHR 0x09] @ ''(2)'' @ [CHR 0x09]
                     @ ''Length'' @ [CHR 0x09] @ ''Angle'' @ [CHR 0x0A])))))"

text \<open>
  The test \<^verbatim>\<open>longest is None or l.length>longest.length\<close>: the comparison is only
  evaluated when \<^verbatim>\<open>longest\<close> is set, and raises \<^verbatim>\<open>TypeError\<close> when a side is \<^verbatim>\<open>None\<close>.
\<close>

definition is_longer :: "Link \<Rightarrow> Link option \<Rightarrow> py_error + bool" where
  "is_longer l longest =
     (case longest of
        None \<Rightarrow> Inr True
      | Some k \<Rightarrow>
          (case (link_length l, link_length k) of
             (Some a, Some b) \<Rightarrow> Inr (a > b)
           | _ \<Rightarrow> Inl TypeError))"

definition report_row :: "(real \<Rightarrow> string) \<Rightarrow> Link \<Rightarrow> py_error + string" where
  "report_row fmt l =
     (case fmt_opt fmt (link_length l) of
        Inl e \<Rightarrow> Inl e
      | Inr s1 \<Rightarrow>
          (case fmt_opt fmt (angleRad l) of
             Inl e \<Rightarrow> Inl e
           | Inr s2 \<Rightarrow>
               Inr (link_name l @ [CHR 0x09] @ node1_Name l @ [CHR 0x09] @ node2_Name l
                      @ [CHR 0x09] @ s1 @ [CHR 0x09] @ s2 @ [CHR 0x0A])))"

fun report_loop ::
  "(real \<Rightarrow> string) \<Rightarrow> Link list \<Rightarrow> Link option \<Rightarrow> string
     \<Rightarrow> py_error + (Link option \<times> string)" where
  "report_loop fmt [] longest st = Inr (longest, st)"
| "report_loop fmt (l # ls) longest st =
     (case is_longer l longest of
        Inl e \<Rightarrow> Inl e
      | Inr b \<Rightarrow>
          (let longest' = (if b then Some l else longest)
           in case report_row fmt l of
                Inl e \<Rightarrow> Inl e
              | Inr row \<Rightarrow> report_loop fmt ls longest' (st @ row)))"

text \<open>
  What \<^verbatim>\<open>displayReport\<close> writes to its widgets; \<open>longest\<close> is the local variable whose
  attributes fill the four line edits.
\<close>

record Report =
  te_Report :: string
  longest :: Link
  le_LongLinkName :: string
  le_LongLinkLength :: string
  le_LongLinkNode1 :: string
  le_LongLinkNode2 :: string

text \<open>
  After the loop \<^verbatim>\<open>longest.name\<close> is read: with no link \<^verbatim>\<open>longest\<close> is still \<^verbatim>\<open>None\<close>
  and the access raises \<^verbatim>\<open>AttributeError\<close> (the report text has been set by then).
\<close>

definition displayReport :: "(real \<Rightarrow> string) \<Rightarrow> TrussModel \<Rightarrow> py_error + Report" where
  "displayReport fmt truss =
     (case report_header fmt truss of
        Inl e \<Rightarrow> Inl e
      | Inr st0 \<Rightarrow>
          (case report_loop fmt (links truss) None st0 of
             Inl e \<Rightarrow> Inl e
           | Inr (None, st) \<Rightarrow> Inl AttributeError
           | Inr (Some l, st) \<Rightarrow>
               (case fmt_opt fmt (link_length l) of
                  Inl e \<Rightarrow> Inl e
                | Inr len \<Rightarrow>
                    Inr \<lparr>te_Report = st, longest = l, le_LongLinkName = link_name l,
                         le_LongLinkLength = len, le_LongLinkNode1 = node1_Name l,
                         le_LongLinkNode2 = node2_Name l\<rparr>)))"

subsection \<open>TrussController.ImportFromFile\<close>

text \<open>
  The file is \<open>None\<close> when the path is empty, does not exist or cannot be read (the
  function prints and returns), and \<open>Some lines\<close> otherwise. The outcome is the model, the
  lines reported by the handler, the exception that left the function (if any) and the
  report (if \<^verbatim>\<open>displayReport\<close> returned). \<^verbatim>\<open>drawTruss\<close> only draws and catches every
  exception; it is not part of the model.
\<close>

record Outcome =
  out_model :: TrussModel
  out_diags :: "string list"
  out_raised :: "py_error option"
  out_report :: "Report option"

definition ImportFromFile ::
  "(real \<Rightarrow> string) \<Rightarrow> (string \<Rightarrow> real option) \<Rightarrow> TrussModel \<Rightarrow> string list option
     \<Rightarrow> Outcome" where
  "ImportFromFile fmt pf m file =
     (case file of
        None \<Rightarrow> \<lparr>out_model = m, out_diags = [], out_raised = None, out_report = None\<rparr>
      | Some lines \<Rightarrow>
          (case import_loop pf (m, []) lines of
             ((m', ds), Some e) \<Rightarrow>
               \<lparr>out_model = m', out_diags = ds, out_raised = Some e, out_report = None\<rparr>
           | ((m', ds), None) \<Rightarrow>
               (let m'' = calcLinkVals m' in
                case displayReport fmt m'' of
                  Inl e \<Rightarrow>
                    \<lparr>out_model = m'', out_diags = ds, out_raised = Some e,
                     out_report = None\<rparr>
                | Inr rep \<Rightarrow>
                    \<lparr>out_model = m'', out_diags = ds, out_raised = None,
                     out_report = Some rep\<rparr>)))"

subsection \<open>Classes of input lines\<close>



definition numeric_field_fails :: "(string \<Rightarrow> real option) \<Rightarrow> string \<Rightarrow> bool" where
  "numeric_field_fails pf raw =
     (let line = str_strip raw in
      \<not> is_comment line \<and> line \<noteq> [] \<and>
      (case str_split CHR '','' line of
         [] \<Rightarrow> False
       | p0 # ps \<Rightarrow>
           (let keyword = str_lower (str_strip p0) in
            (keyword = ''material'' \<and> list_ex (\<lambda>s. pf s = None) ps) \<or>
            (keyword = ''static_factor'' \<and> (case ps of [] \<Rightarrow> False | p1 # _ \<Rightarrow> pf p1 = None)) \<or>
            (keyword = ''node'' \<and> list_ex (\<lambda>s. pf s = None) (drop 1 ps)))))"

text \<open>Every link of a model has the empty name.\<close>

definition names_empty :: "TrussModel \<Rightarrow> bool" where
  "names_empty m = list_all (\<lambda>l. link_name l = '''') (links m)"

subsection \<open>A conversion for the worked examples\<close>

text \<open>
  The theorems below hold for every conversion \<open>pf\<close>. The worked examples need one:
  \<open>dec_float\<close> accepts an unsigned decimal integer literal with surrounding whitespace and
  rejects every other string. On the fields of the examples (\<^verbatim>\<open>" 0"\<close>, \<^verbatim>\<open>" 100"\<close>, \<^verbatim>\<open>" x"\<close>,
  ...) this is what \<^verbatim>\<open>float\<close> does.
\<close>

fun digits_val :: "string \<Rightarrow> nat \<Rightarrow> nat option" where
  "digits_val [] acc = Some acc"
| "digits_val (c # cs) acc =
     (let n = (of_char c :: nat) in
      if 48 \<le> n \<and> n \<le> 57 then digits_val cs (10 * acc + (n - 48)) else None)"

definition dec_float :: "string \<Rightarrow> real option" where
  "dec_float s =
     (let t = str_strip s in if t = [] then None else map_option real (digits_val t 0))"

text \<open>A model for the worked examples: two nodes, a link between them and a link to a
  node that does not exist.\<close>

definition ex_truss :: TrussModel where
  "ex_truss =
     \<lparr>title = Some ''T'',
      links = [\<lparr>link_name = '''', node1_Name = ''A'', node2_Name = ''B'',
                link_length = None, angleRad = None\<rparr>,
               \<lparr>link_name = '''', node1_Name = ''A'', node2_Name = ''Z'',
                link_length = None, angleRad = None\<rparr>],
      nodes = [\<lparr>node_name = ''A'', position = \<lparr>pos_x = 0, pos_y = 0, pos_z = 0\<rparr>\<rparr>,
               \<lparr>node_name = ''B'', position = \<lparr>pos_x = 3, pos_y = 4, pos_z = 0\<rparr>\<rparr>],
      material = \<lparr>uts = Some 100, ys = Some 50, E_modulus = Some 200000,
                  staticFactor = Some 2\<rparr>\<rparr>"

text \<open>The second link of the example model on its own: its second node does not exist.\<close>

definition ex_dangling :: Link where
  "ex_dangling =
     \<lparr>link_name = '''', node1_Name = ''A'', node2_Name = ''Z'',
      link_length = None, angleRad = None\<rparr>"


text \<open>
  An input file: a comment, a title, two nodes, a node line that repeats a name, a node
  line with a malformed number, a link, a material and a static factor; and the model the
  line loop builds from it.
\<close>

definition ex_lines :: "string list" where
  "ex_lines =
     [''# truss'', ''title, T'', ''node, A, 0, 0'', ''node, B, 3, 4'', ''node, A, 1, 1'',
      ''node, C, x, 1'', ''link, L1, A, B'', ''material, 100, 50, 200000'',
      ''static_factor, 2'']"

definition ex_loaded :: TrussModel where
  "ex_loaded =
     \<lparr>title = Some ''T'',
      links = [\<lparr>link_name = '''', node1_Name = ''A'', node2_Name = ''B'',
                link_length = None, angleRad = None\<rparr>],
      nodes = [\<lparr>node_name = ''A'', position = \<lparr>pos_x = 0, pos_y = 0, pos_z = 0\<rparr>\<rparr>,
               \<lparr>node_name = ''B'', position = \<lparr>pos_x = 3, pos_y = 4, pos_z = 0\<rparr>\<rparr>],
      material = \<lparr>uts = Some 100, ys = Some 50, E_modulus = Some 200000,
                  staticFactor = Some 2\<rparr>\<rparr>"

section \<open>Properties\<close>

subsection \<open>One directive at a time\<close>

lemma try_body_material:
  assumes "str_split CHR '','' line = k # fs"
    and "str_lower (str_strip k) = ''material''"
    and "map_float pf fs = Some [u, y, e]"
  shows "try_body pf m line =
           Inr (m\<lparr>material :=
                  \<lparr>uts = Some u, ys = Some y, E_modulus = Some e, staticFactor = None\<rparr>\<rparr>)"
  using assms by (simp add: try_body_def index_def Material_init_def)

lemma try_body_static_factor:
  assumes "str_split CHR '','' line = k # f # rest"
    and "str_lower (str_strip k) = ''static_factor''"
    and "pf f = Some v"
  shows "try_body pf m line = Inr (m\<lparr>material := (material m)\<lparr>staticFactor := Some v\<rparr>\<rparr>)"
  using assms by (simp add: try_body_def index_def)

lemma try_body_link:
  assumes "str_split CHR '','' line = k # p1 # p2 # p3 # rest"
    and "str_lower (str_strip k) = ''link''"
  shows "try_body pf m line =
           Inr (m\<lparr>links := links m @
                  [\<lparr>link_name = '''', node1_Name = str_strip p2, node2_Name = str_strip p3,
                    link_length = None, angleRad = None\<rparr>]\<rparr>)"
  using assms by (simp add: try_body_def index_def addLink_def Link_init_def)

lemma try_body_node:
  assumes "str_split CHR '','' line = k # p1 # fs"
    and "str_lower (str_strip k) = ''node''"
    and "map_float pf fs = Some [x, y]"
  shows "try_body pf m line =
           (if hasNode m (str_strip p1) then Inr m
            else Inr (m\<lparr>nodes := nodes m @
                  [\<lparr>node_name = str_strip p1,
                    position = \<lparr>pos_x = x, pos_y = y, pos_z = 0\<rparr>\<rparr>]\<rparr>))"
  using assms by (simp add: try_body_def index_def addNode_def Node_init_def Position_init_def)

subsection \<open>The try block, branch by branch\<close>

lemma str_split_nonempty: "str_split sep s \<noteq> []"
  by (induction s) (auto split: list.splits)

lemma try_body_title:
  assumes "str_split CHR '','' line = p0 # ps" and "str_lower (str_strip p0) = ''title''"
  shows "try_body pf m line =
     (case ps of [] \<Rightarrow> Inl IndexError
      | p1 # _ \<Rightarrow> Inr (m\<lparr>title := Some (strip_where (\<lambda>c. c = CHR 0x27) (str_strip p1))\<rparr>))"
  using assms by (simp add: try_body_def index_def split: list.splits)

lemma try_body_material_eq:
  assumes "str_split CHR '','' line = p0 # ps" and "str_lower (str_strip p0) = ''material''"
  shows "try_body pf m line =
     (case map_float pf ps of
        Some [u, y, modulus] \<Rightarrow>
          Inr (m\<lparr>material := Material_init (Some u) (Some y) (Some modulus) None\<rparr>)
      | _ \<Rightarrow> Inl ValueError)"
  using assms by (simp add: try_body_def index_def)

lemma try_body_static_factor_eq:
  assumes "str_split CHR '','' line = p0 # ps" and "str_lower (str_strip p0) = ''static_factor''"
  shows "try_body pf m line =
     (case ps of [] \<Rightarrow> Inl IndexError
      | p1 # _ \<Rightarrow>
          (case pf p1 of None \<Rightarrow> Inl ValueError
           | Some v \<Rightarrow> Inr (m\<lparr>material := (material m)\<lparr>staticFactor := Some v\<rparr>\<rparr>)))"
  using assms by (simp add: try_body_def index_def split: list.splits)

lemma try_body_node_eq:
  assumes "str_split CHR '','' line = p0 # ps" and "str_lower (str_strip p0) = ''node''"
  shows "try_body pf m line =
     (case ps of [] \<Rightarrow> Inl IndexError
      | p1 # fs \<Rightarrow>
          (case map_float pf fs of
             Some [x, y] \<Rightarrow>
               if \<not> hasNode m (str_strip p1)
               then Inr (addNode m (Node_init (str_strip p1)
                           (Some (Position_init None (Some x) (Some y) None))))
               else Inr m
           | _ \<Rightarrow> Inl ValueError))"
  using assms by (cases ps) (simp_all add: try_body_def index_def Let_def)

lemma try_body_link_eq:
  assumes "str_split CHR '','' line = p0 # ps" and "str_lower (str_strip p0) = ''link''"
  shows "try_body pf m line =
     (case ps of
        p1 # p2 # p3 # _ \<Rightarrow> Inr (addLink m (Link_init p1 (str_strip p2) (str_strip p3) None None))
      | _ \<Rightarrow> Inl IndexError)"
  using assms by (simp add: try_body_def index_def split: list.splits)

lemma try_body_other:
  assumes "str_split CHR '','' line = p0 # ps"
    and "str_lower (str_strip p0) \<noteq> ''title''" and "str_lower (str_strip p0) \<noteq> ''material''"
    and "str_lower (str_strip p0) \<noteq> ''static_factor''" and "str_lower (str_strip p0) \<noteq> ''node''"
    and "str_lower (str_strip p0) \<noteq> ''link''"
  shows "try_body pf m line = Inr m"
  using assms by (simp add: try_body_def index_def)

text \<open>The case analysis every frame property of the try block goes through.\<close>

lemma try_body_cases:
  obtains
    (title) p0 ps where "str_split CHR '','' line = p0 # ps" "str_lower (str_strip p0) = ''title''"
  | (material) p0 ps where "str_split CHR '','' line = p0 # ps"
      "str_lower (str_strip p0) = ''material''"
  | (static_factor) p0 ps where "str_split CHR '','' line = p0 # ps"
      "str_lower (str_strip p0) = ''static_factor''"
  | (node) p0 ps where "str_split CHR '','' line = p0 # ps" "str_lower (str_strip p0) = ''node''"
  | (link) p0 ps where "str_split CHR '','' line = p0 # ps" "str_lower (str_strip p0) = ''link''"
  | (other) "\<And>pf m. try_body pf m line = Inr m"
proof -
  obtain p0 ps where sp: "str_split CHR '','' line = p0 # ps"
    using str_split_nonempty [of "CHR '',''" line] by (cases "str_split CHR '','' line") auto
  show thesis
    using sp try_body_other [OF sp] title material static_factor node link other by blast
qed

lemma try_body_links:
  assumes "try_body pf m line = Inr m'"
  shows "links m' = links m \<or>
         (\<exists>l. links m' = links m @ [l] \<and> link_name l = '''' \<and> link_length l = None \<and>
              angleRad l = None)"
proof (cases line rule: try_body_cases)
  case (title p0 ps)
  then show ?thesis using assms by (auto simp: try_body_title split: list.splits)
next
  case (material p0 ps)
  then show ?thesis
    using assms by (auto simp: try_body_material_eq split: option.splits list.splits)
next
  case (static_factor p0 ps)
  then show ?thesis
    using assms by (auto simp: try_body_static_factor_eq split: option.splits list.splits)
next
  case (node p0 ps)
  then show ?thesis
    using assms
    by (auto simp: try_body_node_eq addNode_def split: option.splits list.splits if_splits)
next
  case (link p0 ps)
  then show ?thesis
    using assms by (auto simp: try_body_link_eq addLink_def Link_init_def split: list.splits)
next
  case other
  then show ?thesis using assms by simp
qed

lemma try_body_nodes:
  assumes "try_body pf m line = Inr m'"
  shows "nodes m' = nodes m \<or>
         (\<exists>n. nodes m' = nodes m @ [n] \<and> \<not> hasNode m (node_name n))"
proof (cases line rule: try_body_cases)
  case (title p0 ps)
  then show ?thesis using assms by (auto simp: try_body_title split: list.splits)
next
  case (material p0 ps)
  then show ?thesis
    using assms by (auto simp: try_body_material_eq split: option.splits list.splits)
next
  case (static_factor p0 ps)
  then show ?thesis
    using assms by (auto simp: try_body_static_factor_eq split: option.splits list.splits)
next
  case (node p0 ps)
  then show ?thesis
    using assms
    by (auto simp: try_body_node_eq addNode_def Node_init_def
             split: option.splits list.splits if_splits)
next
  case (link p0 ps)
  then show ?thesis
    using assms by (auto simp: try_body_link_eq addLink_def split: list.splits)
next
  case other
  then show ?thesis using assms by simp
qed


subsection \<open>The line loop\<close>

lemma import_loop_invariant:
  assumes step: "\<And>m line m'. P m \<Longrightarrow> try_body pf m line = Inr m' \<Longrightarrow> P m'"
    and "P m"
  shows "P (fst (fst (import_loop pf (m, ds) lines)))"
  using \<open>P m\<close>
proof (induction lines arbitrary: m ds)
  case Nil
  then show ?case by simp
next
  case (Cons raw rest)
  show ?case
  proof (cases "is_comment (str_strip raw) \<or> str_strip raw = []")
    case True
    then show ?thesis using Cons by (simp add: Let_def)
  next
    case False
    show ?thesis
    proof (cases "try_body pf m (str_strip raw)")
      case (Inl e)
      then show ?thesis using False Cons by (simp add: Let_def)
    next
      case (Inr m')
      then have "P m'" using step Cons.prems by blast
      then show ?thesis using False Inr Cons.IH by (simp add: Let_def)
    qed
  qed
qed


lemma import_loop_append:
  "import_loop pf s (xs @ zs) =
     (case import_loop pf s xs of
        (s', None) \<Rightarrow> import_loop pf s' zs
      | (s', Some e) \<Rightarrow> (s', Some e))"
proof (induction xs arbitrary: s)
  case Nil
  then show ?case by (cases s) simp
next
  case (Cons raw rest)
  obtain m ds where s: "s = (m, ds)" by (cases s)
  show ?case
    unfolding s using Cons.IH
    by (simp add: Let_def split: sum.splits)
qed

lemma import_loop_diags:
  "import_loop pf (m, ds) lines =
     (case import_loop pf (m, []) lines of ((m', d'), e) \<Rightarrow> ((m', ds @ d'), e))"
proof (induction lines arbitrary: m ds)
  case Nil
  then show ?case by simp
next
  case (Cons raw rest)
  show ?case
  proof (cases "is_comment (str_strip raw) \<or> str_strip raw = []")
    case True
    then show ?thesis using Cons [of m ds] by (simp add: Let_def)
  next
    case False
    show ?thesis
    proof (cases "try_body pf m (str_strip raw)")
      case (Inl e)
      show ?thesis
      proof (cases "e = ValueError")
        case True
        show ?thesis
          using False Inl True Cons [of m "ds @ [str_strip raw]"] Cons [of m "[str_strip raw]"]
          by (simp add: Let_def split: prod.splits)
      next
        case False': False
        show ?thesis using False Inl False' by (simp add: Let_def)
      qed
    next
      case (Inr m')
      then show ?thesis using False Cons [of m' ds] by (simp add: Let_def)
    qed
  qed
qed

subsection \<open>Facts about the example lines\<close>

lemmas ex_simps = dec_float_def str_strip_def strip_where_def is_space_def

lemma ex_split_material:
  "str_split CHR '','' ''material, 100, 50, 200000'' =
     [''material'', '' 100'', '' 50'', '' 200000'']"
  by simp

lemma ex_kw_material: "str_lower (str_strip ''material'') = ''material''"
  by code_simp

lemma ex_split_static: "str_split CHR '','' ''static_factor, 2'' = [''static_factor'', '' 2'']"
  by simp

lemma ex_kw_static: "str_lower (str_strip ''static_factor'') = ''static_factor''"
  by code_simp

lemma ex_split_link: "str_split CHR '','' ''link, L1, A, Z'' = [''link'', '' L1'', '' A'', '' Z'']"
  by simp

lemma ex_kw_link: "str_lower (str_strip ''link'') = ''link''"
  by code_simp

lemma sqrt_25: "sqrt 25 = 5"
proof -
  have "sqrt ((5::real)\<^sup>2) = 5" by simp
  then show ?thesis by simp
qed

subsection \<open>The material and static\_factor directives\<close>

text \<open>
  Claim C5. A \<^verbatim>\<open>material\<close> line with three fields that \<^verbatim>\<open>float\<close> accepts replaces the
  model's Material by one built from the three numbers alone: its static factor is unset,
  whatever it was before. A \<^verbatim>\<open>static_factor\<close> line updates the static factor of the
  current Material and keeps its other attributes.
\<close>

theorem C5_material_replaces_static_factor_updates:
  "(str_split CHR '','' line = k # fs \<and> str_lower (str_strip k) = ''material'' \<and>
      map_float pf fs = Some [u, y, e] \<longrightarrow>
      try_body pf m line =
        Inr (m\<lparr>material :=
               \<lparr>uts = Some u, ys = Some y, E_modulus = Some e, staticFactor = None\<rparr>\<rparr>)) \<and>
   (str_split CHR '','' line' = k' # f # rest \<and>
      str_lower (str_strip k') = ''static_factor'' \<and> pf f = Some v \<longrightarrow>
      try_body pf m line' = Inr (m\<lparr>material := (material m)\<lparr>staticFactor := Some v\<rparr>\<rparr>))"
  by (simp add: try_body_material try_body_static_factor)

theorem C5_witness:
  "try_body dec_float
     (TrussModel_init\<lparr>material :=
        \<lparr>uts = None, ys = None, E_modulus = None, staticFactor = Some 2\<rparr>\<rparr>)
     ''material, 100, 50, 200000'' =
     Inr (TrussModel_init\<lparr>material :=
            \<lparr>uts = Some 100, ys = Some 50, E_modulus = Some 200000, staticFactor = None\<rparr>\<rparr>) \<and>
   try_body dec_float TrussModel_init ''static_factor, 2'' =
     Inr (TrussModel_init\<lparr>material :=
            \<lparr>uts = None, ys = None, E_modulus = None, staticFactor = Some 2\<rparr>\<rparr>)"
proof -
  let ?m = "TrussModel_init\<lparr>material :=
              \<lparr>uts = None, ys = None, E_modulus = None, staticFactor = Some 2\<rparr>\<rparr>"
  have f: "map_float dec_float ['' 100'', '' 50'', '' 200000''] = Some [100, 50, 200000]"
    by (simp add: ex_simps)
  have g: "dec_float '' 2'' = Some 2"
    by (simp add: ex_simps)
  have a: "try_body dec_float ?m ''material, 100, 50, 200000'' =
     Inr (?m\<lparr>material :=
            \<lparr>uts = Some 100, ys = Some 50, E_modulus = Some 200000, staticFactor = None\<rparr>\<rparr>)"
    using C5_material_replaces_static_factor_updates
            [of "''material, 100, 50, 200000''" "''material''"
                "['' 100'', '' 50'', '' 200000'']" dec_float 100 50 200000 ?m]
      ex_split_material ex_kw_material f by blast
  have b: "try_body dec_float TrussModel_init ''static_factor, 2'' =
     Inr (TrussModel_init\<lparr>material := (material TrussModel_init)\<lparr>staticFactor := Some 2\<rparr>\<rparr>)"
    using C5_material_replaces_static_factor_updates
            [of _ _ _ dec_float _ _ _ TrussModel_init "''static_factor, 2''"
                "''static_factor''" "'' 2''" "[]" 2]
      ex_split_static ex_kw_static g by blast
  show ?thesis
    unfolding a b by (simp add: TrussModel_init_def Material_init_def)
qed

subsection \<open>Links and the derivation pass\<close>



lemma getNode_loop_Some: "hasNode_loop ns nm \<Longrightarrow> \<exists>a. getNode_loop ns nm = Some a"
  by (induction ns) auto

lemma getNode_loop_sound: "getNode_loop ns nm = Some a \<Longrightarrow> a \<in> set ns \<and> node_name a = nm"
  by (induction ns) (auto split: if_splits)

lemma calcLink_resolved:
  assumes "hasNode m (node1_Name l)" and "hasNode m (node2_Name l)"
  shows "\<exists>a b. getNode m (node1_Name l) = Some a \<and> getNode m (node2_Name l) = Some b \<and>
           calcLink m l =
             l\<lparr>link_length := Some (mag (Position_sub (position b) (position a))),
               angleRad := Some (getAngleRad (Position_sub (position b) (position a)))\<rparr>"
proof -
  from assms obtain a b where "getNode m (node1_Name l) = Some a" "getNode m (node2_Name l) = Some b"
    using getNode_loop_Some unfolding hasNode_def getNode_def by blast
  with assms show ?thesis by (simp add: calcLink_def Let_def)
qed

lemma calcLink_unresolved:
  assumes "\<not> (hasNode m (node1_Name l) \<and> hasNode m (node2_Name l))"
  shows "calcLink m l = l"
  using assms by (auto simp: calcLink_def split: option.splits)

lemma calcLink_names:
  "link_name (calcLink m l) = link_name l \<and> node1_Name (calcLink m l) = node1_Name l \<and>
   node2_Name (calcLink m l) = node2_Name l"
  by (cases "hasNode m (node1_Name l) \<and> hasNode m (node2_Name l)")
     (use calcLink_resolved [of m l] calcLink_unresolved [of m l] in auto)



subsection \<open>The report\<close>

lemma report_row_Inr:
  "report_row fmt l = Inr row \<Longrightarrow>
     \<exists>v a. link_length l = Some v \<and> angleRad l = Some a \<and>
       row = link_name l @ [CHR 0x09] @ node1_Name l @ [CHR 0x09] @ node2_Name l
               @ [CHR 0x09] @ fmt v @ [CHR 0x09] @ fmt a @ [CHR 0x0A]"
  by (auto simp: report_row_def fmt_opt_def split: option.splits)

lemma report_row_error: "report_row fmt l = Inl e \<Longrightarrow> e = TypeError"
  by (auto simp: report_row_def fmt_opt_def split: option.splits)

lemma is_longer_error: "is_longer l lg = Inl e \<Longrightarrow> e = TypeError"
  by (auto simp: is_longer_def split: option.splits)

text \<open>The loop succeeds only when every link it visits has a length, and its text is the
  text so far followed by the rows of the links.\<close>

lemma report_loop_rows:
  "report_loop fmt ls lg st = Inr (r, st') \<Longrightarrow>
     \<exists>rows. st' = st @ concat rows \<and> list_all2 (\<lambda>l row. report_row fmt l = Inr row) ls rows"
proof (induction ls arbitrary: lg st)
  case Nil
  then show ?case by simp
next
  case (Cons l ls)
  from Cons.prems obtain b row where b: "is_longer l lg = Inr b"
    and row: "report_row fmt l = Inr row"
    and rest: "report_loop fmt ls (if b then Some l else lg) (st @ row) = Inr (r, st')"
    by (auto simp: Let_def split: sum.splits)
  from Cons.IH [OF rest] obtain rows where
    "st' = (st @ row) @ concat rows" "list_all2 (\<lambda>l row. report_row fmt l = Inr row) ls rows"
    by blast
  then have "st' = st @ concat (row # rows) \<and>
             list_all2 (\<lambda>l row. report_row fmt l = Inr row) (l # ls) (row # rows)"
    using row by simp
  then show ?case by blast
qed


lemma displayReport_Inr:
  assumes "displayReport fmt truss = Inr rep"
  shows "\<exists>st0 v. report_header fmt truss = Inr st0 \<and>
           report_loop fmt (links truss) None st0 = Inr (Some (longest rep), te_Report rep) \<and>
           link_length (longest rep) = Some v \<and>
           le_LongLinkName rep = link_name (longest rep) \<and>
           le_LongLinkLength rep = fmt v \<and>
           le_LongLinkNode1 rep = node1_Name (longest rep) \<and>
           le_LongLinkNode2 rep = node2_Name (longest rep)"
  using assms
  by (auto simp: displayReport_def fmt_opt_def split: sum.splits option.splits prod.splits)





subsection \<open>Malformed lines, node names and link names through the import\<close>

lemma map_float_None: "list_ex (\<lambda>s. pf s = None) ss \<Longrightarrow> map_float pf ss = None"
  by (induction ss) (auto split: option.splits)

lemma numeric_field_fails_ValueError:
  assumes "numeric_field_fails pf raw"
  shows "try_body pf m (str_strip raw) = Inl ValueError"
    and "\<not> is_comment (str_strip raw)" and "str_strip raw \<noteq> []"
proof -
  from assms show "\<not> is_comment (str_strip raw)" and "str_strip raw \<noteq> []"
    by (simp_all add: numeric_field_fails_def Let_def)
  from assms obtain p0 ps where sp: "str_split CHR '','' (str_strip raw) = p0 # ps"
    and k: "(str_lower (str_strip p0) = ''material'' \<and> list_ex (\<lambda>s. pf s = None) ps) \<or>
            (str_lower (str_strip p0) = ''static_factor'' \<and>
               (case ps of [] \<Rightarrow> False | p1 # _ \<Rightarrow> pf p1 = None)) \<or>
            (str_lower (str_strip p0) = ''node'' \<and> list_ex (\<lambda>s. pf s = None) (drop 1 ps))"
    by (auto simp: numeric_field_fails_def Let_def split: list.splits)
  from k show "try_body pf m (str_strip raw) = Inl ValueError"
  proof (elim disjE conjE)
    assume "str_lower (str_strip p0) = ''material''" "list_ex (\<lambda>s. pf s = None) ps"
    then show ?thesis
      by (simp add: try_body_material_eq [OF sp] map_float_None)
  next
    assume "str_lower (str_strip p0) = ''static_factor''"
      "case ps of [] \<Rightarrow> False | p1 # _ \<Rightarrow> pf p1 = None"
    then show ?thesis
      by (simp add: try_body_static_factor_eq [OF sp] split: list.splits)
  next
    assume "str_lower (str_strip p0) = ''node''" "list_ex (\<lambda>s. pf s = None) (drop 1 ps)"
    then show ?thesis
      by (cases ps) (simp_all add: try_body_node_eq [OF sp] map_float_None)
  qed
qed





lemma import_loop_malformed:
  assumes bad: "numeric_field_fails pf raw"
  shows "fst (fst (import_loop pf (m, ds) (pre @ raw # post))) =
           fst (fst (import_loop pf (m, ds) (pre @ post))) \<and>
         snd (import_loop pf (m, ds) (pre @ raw # post)) =
           snd (import_loop pf (m, ds) (pre @ post)) \<and>
         (snd (import_loop pf (m, ds) pre) = None \<longrightarrow>
            (\<exists>d1 d2. snd (fst (import_loop pf (m, ds) (pre @ post))) = d1 @ d2 \<and>
               snd (fst (import_loop pf (m, ds) (pre @ raw # post))) = d1 @ str_strip raw # d2))"
proof -
  obtain m1 d1 e1 where pre: "import_loop pf (m, ds) pre = ((m1, d1), e1)"
    by (metis surj_pair)
  show ?thesis
  proof (cases e1)
    case (Some e)
    then show ?thesis using pre by (simp add: import_loop_append)
  next
    case None
    obtain m2 d2 e2 where post: "import_loop pf (m1, []) post = ((m2, d2), e2)"
      by (metis surj_pair)
    have skip: "import_loop pf (m1, d1) (raw # post) =
                  import_loop pf (m1, d1 @ [str_strip raw]) post"
      using numeric_field_fails_ValueError(1) [OF bad, of m1]
        numeric_field_fails_ValueError(2,3) [OF bad]
      by (simp add: Let_def)
    have full: "import_loop pf (m, ds) (pre @ raw # post) =
                  ((m2, d1 @ str_strip raw # d2), e2)"
      using pre None skip post import_loop_diags [of pf m1 "d1 @ [str_strip raw]" post]
      by (simp add: import_loop_append)
    have removed: "import_loop pf (m, ds) (pre @ post) = ((m2, d1 @ d2), e2)"
      using pre None post import_loop_diags [of pf m1 d1 post]
      by (simp add: import_loop_append)
    show ?thesis unfolding full removed by auto
  qed
qed

lemma ImportFromFile_Some:
  "ImportFromFile fmt pf m (Some lines) =
     (case snd (import_loop pf (m, []) lines) of
        Some e \<Rightarrow>
          \<lparr>out_model = fst (fst (import_loop pf (m, []) lines)),
           out_diags = snd (fst (import_loop pf (m, []) lines)),
           out_raised = Some e, out_report = None\<rparr>
      | None \<Rightarrow>
          (case displayReport fmt (calcLinkVals (fst (fst (import_loop pf (m, []) lines)))) of
             Inl e \<Rightarrow>
               \<lparr>out_model = calcLinkVals (fst (fst (import_loop pf (m, []) lines))),
                out_diags = snd (fst (import_loop pf (m, []) lines)),
                out_raised = Some e, out_report = None\<rparr>
           | Inr rep \<Rightarrow>
               \<lparr>out_model = calcLinkVals (fst (fst (import_loop pf (m, []) lines))),
                out_diags = snd (fst (import_loop pf (m, []) lines)),
                out_raised = None, out_report = Some rep\<rparr>))"
  by (simp add: ImportFromFile_def Let_def split: prod.splits option.splits sum.splits)



lemma ImportFromFile_report:
  assumes "out_report (ImportFromFile fmt pf m file) = Some rep"
  shows "displayReport fmt (out_model (ImportFromFile fmt pf m file)) = Inr rep"
proof (cases "file")
  case None
  then show ?thesis using assms by (simp add: ImportFromFile_def)
next
  case (Some lines)
  then show ?thesis
    using assms by (auto simp: ImportFromFile_Some split: option.splits sum.splits)
qed

lemma report_loop_member:
  "report_loop fmt ls lg st = Inr (Some k, st') \<Longrightarrow> k \<in> set ls \<or> lg = Some k"
proof (induction ls arbitrary: lg st)
  case Nil
  then show ?case by simp
next
  case (Cons l ls)
  from Cons.prems obtain b row where
    rest: "report_loop fmt ls (if b then Some l else lg) (st @ row) = Inr (Some k, st')"
    by (auto simp: Let_def split: sum.splits)
  from Cons.IH [OF rest] show ?case by (auto split: if_splits)
qed

lemma try_body_names_empty:
  assumes "names_empty m" and "try_body pf m line = Inr m'"
  shows "names_empty m'"
  using try_body_links [OF assms(2)] assms(1) by (auto simp: names_empty_def)

lemma calcLinkVals_names_empty: "names_empty (calcLinkVals m) = names_empty m"
  by (simp add: names_empty_def calcLinkVals_def list_all_iff calcLink_names)

lemma ImportFromFile_names_empty:
  assumes "names_empty m"
  shows "names_empty (out_model (ImportFromFile fmt pf m file))"
proof (cases "file")
  case None
  then show ?thesis using assms by (simp add: ImportFromFile_def)
next
  case (Some lines)
  have "names_empty (fst (fst (import_loop pf (m, []) lines)))"
    using import_loop_invariant [where P = names_empty, OF try_body_names_empty assms] .
  then show ?thesis
    unfolding Some
    by (simp add: ImportFromFile_Some calcLinkVals_names_empty split: option.splits sum.splits)
qed

lemma displayReport_names_empty:
  assumes "names_empty truss" and "displayReport fmt truss = Inr rep"
  shows "le_LongLinkName rep = ''''"
    and "\<exists>st0 rows. report_header fmt truss = Inr st0 \<and> te_Report rep = st0 @ concat rows \<and>
           list_all2 (\<lambda>l row. report_row fmt l = Inr row \<and> hd row = CHR 0x09) (links truss) rows"
proof -
  from displayReport_Inr [OF assms(2)] obtain st0 where
    h: "report_header fmt truss = Inr st0"
    and loop: "report_loop fmt (links truss) None st0 = Inr (Some (longest rep), te_Report rep)"
    and nm: "le_LongLinkName rep = link_name (longest rep)"
    by blast
  from report_loop_member [OF loop] have "longest rep \<in> set (links truss)" by simp
  with assms(1) nm show "le_LongLinkName rep = ''''"
    by (simp add: names_empty_def list_all_iff)
  from report_loop_rows [OF loop] obtain rows where
    rows: "te_Report rep = st0 @ concat rows"
      "list_all2 (\<lambda>l row. report_row fmt l = Inr row) (links truss) rows"
    by blast
  have "list_all2 (\<lambda>l row. report_row fmt l = Inr row \<and> hd row = CHR 0x09) (links truss) rows"
    unfolding list_all2_conv_all_nth
  proof (intro conjI allI impI)
    show "length (links truss) = length rows"
      using rows(2) by (simp add: list_all2_lengthD)
    fix i assume i: "i < length (links truss)"
    then have r: "report_row fmt (links truss ! i) = Inr (rows ! i)"
      using rows(2) by (simp add: list_all2_conv_all_nth)
    then show "report_row fmt (links truss ! i) = Inr (rows ! i)" .
    from i assms(1) have "link_name (links truss ! i) = ''''"
      by (simp add: names_empty_def list_all_length)
    with report_row_Inr [OF r] show "hd (rows ! i) = CHR 0x09" by auto
  qed
  with h rows(1) show "\<exists>st0 rows. report_header fmt truss = Inr st0 \<and>
           te_Report rep = st0 @ concat rows \<and>
           list_all2 (\<lambda>l row. report_row fmt l = Inr row \<and> hd row = CHR 0x09) (links truss) rows"
    by blast
qed

subsection \<open>The example file, line by line\<close>

lemma ex_kw_title: "str_lower (str_strip ''title'') = ''title''"
  by code_simp

lemma ex_kw_node: "str_lower (str_strip ''node'') = ''node''"
  by code_simp

lemmas ex_strip = str_strip_def strip_where_def is_space_def

lemma ex_tb_title: "try_body dec_float m ''title, T'' = Inr (m\<lparr>title := Some ''T''\<rparr>)"
proof -
  have "str_split CHR '','' ''title, T'' = [''title'', '' T'']" by simp
  from try_body_title [OF this ex_kw_title] show ?thesis by (simp add: ex_strip)
qed

lemma ex_tb_node_A:
  "try_body dec_float m ''node, A, 0, 0'' =
     (if hasNode m ''A'' then Inr m
      else Inr (m\<lparr>nodes := nodes m @
             [\<lparr>node_name = ''A'', position = \<lparr>pos_x = 0, pos_y = 0, pos_z = 0\<rparr>\<rparr>]\<rparr>))"
proof -
  have s: "str_split CHR '','' ''node, A, 0, 0'' = [''node'', '' A'', '' 0'', '' 0'']" by simp
  have f: "map_float dec_float ['' 0'', '' 0''] = Some [0, 0]" by (simp add: ex_simps)
  from try_body_node [OF s ex_kw_node f] show ?thesis by (simp add: ex_strip)
qed

lemma ex_tb_node_B:
  "try_body dec_float m ''node, B, 3, 4'' =
     (if hasNode m ''B'' then Inr m
      else Inr (m\<lparr>nodes := nodes m @
             [\<lparr>node_name = ''B'', position = \<lparr>pos_x = 3, pos_y = 4, pos_z = 0\<rparr>\<rparr>]\<rparr>))"
proof -
  have s: "str_split CHR '','' ''node, B, 3, 4'' = [''node'', '' B'', '' 3'', '' 4'']" by simp
  have f: "map_float dec_float ['' 3'', '' 4''] = Some [3, 4]" by (simp add: ex_simps)
  from try_body_node [OF s ex_kw_node f] show ?thesis by (simp add: ex_strip)
qed

lemma ex_tb_node_A_again:
  "try_body dec_float m ''node, A, 1, 1'' =
     (if hasNode m ''A'' then Inr m
      else Inr (m\<lparr>nodes := nodes m @
             [\<lparr>node_name = ''A'', position = \<lparr>pos_x = 1, pos_y = 1, pos_z = 0\<rparr>\<rparr>]\<rparr>))"
proof -
  have s: "str_split CHR '','' ''node, A, 1, 1'' = [''node'', '' A'', '' 1'', '' 1'']" by simp
  have f: "map_float dec_float ['' 1'', '' 1''] = Some [1, 1]" by (simp add: ex_simps)
  from try_body_node [OF s ex_kw_node f] show ?thesis by (simp add: ex_strip)
qed

lemma ex_split_node_C:
  "str_split CHR '','' ''node, C, x, 1'' = [''node'', '' C'', '' x'', '' 1'']"
  by simp

lemma ex_float_x: "dec_float '' x'' = None"
  by (simp add: ex_simps)

lemma ex_lines_strip:
  "str_strip ''# truss'' = ''# truss''" "str_strip ''title, T'' = ''title, T''"
  "str_strip ''node, A, 0, 0'' = ''node, A, 0, 0''"
  "str_strip ''node, B, 3, 4'' = ''node, B, 3, 4''"
  "str_strip ''node, A, 1, 1'' = ''node, A, 1, 1''"
  "str_strip ''node, C, x, 1'' = ''node, C, x, 1''"
  "str_strip ''link, L1, A, B'' = ''link, L1, A, B''"
  "str_strip ''material, 100, 50, 200000'' = ''material, 100, 50, 200000''"
  "str_strip ''static_factor, 2'' = ''static_factor, 2''"
  by (simp_all add: ex_strip)

lemma ex_node_C_fails: "numeric_field_fails dec_float ''node, C, x, 1''"
  by (simp add: numeric_field_fails_def Let_def ex_lines_strip is_comment_def ex_split_node_C
        ex_kw_node ex_float_x)

lemma ex_tb_link:
  "try_body dec_float m ''link, L1, A, B'' =
     Inr (m\<lparr>links := links m @
            [\<lparr>link_name = '''', node1_Name = ''A'', node2_Name = ''B'',
              link_length = None, angleRad = None\<rparr>]\<rparr>)"
proof -
  have s: "str_split CHR '','' ''link, L1, A, B'' = [''link'', '' L1'', '' A'', '' B'']" by simp
  from try_body_link [OF s ex_kw_link] show ?thesis by (simp add: ex_strip)
qed

lemma ex_tb_material:
  "try_body dec_float m ''material, 100, 50, 200000'' =
     Inr (m\<lparr>material :=
            \<lparr>uts = Some 100, ys = Some 50, E_modulus = Some 200000, staticFactor = None\<rparr>\<rparr>)"
proof -
  have f: "map_float dec_float ['' 100'', '' 50'', '' 200000''] = Some [100, 50, 200000]"
    by (simp add: ex_simps)
  from try_body_material [OF ex_split_material ex_kw_material f] show ?thesis .
qed

lemma ex_tb_static:
  "try_body dec_float m ''static_factor, 2'' =
     Inr (m\<lparr>material := (material m)\<lparr>staticFactor := Some 2\<rparr>\<rparr>)"
proof -
  have f: "dec_float '' 2'' = Some 2" by (simp add: ex_simps)
  from try_body_static_factor [where pf = dec_float, OF ex_split_static ex_kw_static f]
  show ?thesis .
qed

lemma ex_tb_node_C: "try_body dec_float m ''node, C, x, 1'' = Inl ValueError"
  using numeric_field_fails_ValueError(1) [OF ex_node_C_fails, of m]
  by (simp add: ex_lines_strip)

lemma ex_import_loop:
  "import_loop dec_float (TrussModel_init, []) ex_lines = ((ex_loaded, [''node, C, x, 1'']), None)"
  by (simp add: ex_lines_def Let_def ex_lines_strip is_comment_def ex_tb_title ex_tb_node_A
        ex_tb_node_B ex_tb_node_A_again ex_tb_node_C ex_tb_link ex_tb_material ex_tb_static
        hasNode_def TrussModel_init_def Material_init_def ex_loaded_def)



lemma ex_calcLinkVals:
  "calcLinkVals ex_loaded =
     ex_loaded\<lparr>links :=
       [\<lparr>link_name = '''', node1_Name = ''A'', node2_Name = ''B'',
         link_length = Some 5, angleRad = Some (arccos (3 / 5))\<rparr>]\<rparr>"
  by (simp add: calcLinkVals_def calcLink_def hasNode_def getNode_def ex_loaded_def Let_def
        Position_sub_def Position_init_def mag_def getAngleRad_def sqrt_25)

lemma ex_report:
  "\<exists>st. displayReport fmt (calcLinkVals ex_loaded) =
     Inr \<lparr>te_Report = st,
          longest = \<lparr>link_name = '''', node1_Name = ''A'', node2_Name = ''B'',
                      link_length = Some 5, angleRad = Some (arccos (3 / 5))\<rparr>,
          le_LongLinkName = '''', le_LongLinkLength = fmt 5,
          le_LongLinkNode1 = ''A'', le_LongLinkNode2 = ''B''\<rparr>"
  unfolding ex_calcLinkVals
  by (simp add: displayReport_def report_header_def fmt_opt_def is_longer_def report_row_def
        ex_loaded_def)

lemma ex_import:
  "\<exists>rep. ImportFromFile fmt dec_float TrussModel_init (Some ex_lines) =
     \<lparr>out_model = calcLinkVals ex_loaded, out_diags = [''node, C, x, 1''],
      out_raised = None, out_report = Some rep\<rparr> \<and> le_LongLinkName rep = ''''"
proof -
  from ex_report [of fmt] obtain rep where
    "displayReport fmt (calcLinkVals ex_loaded) = Inr rep" "le_LongLinkName rep = ''''"
    by force
  then show ?thesis by (simp add: ImportFromFile_def ex_import_loop)
qed

subsection \<open>Unique node names\<close>



subsection \<open>A malformed line is skipped\<close>

text \<open>
  Claim C6. Let a line carry a recognised directive with a numeric field that \<^verbatim>\<open>float\<close>
  rejects. Its try block raises \<^verbatim>\<open>ValueError\<close> on every model, and the import of a file
  with this line ends with the model, the exception and the report of the import of the
  file without it; when the lines before it are all processed, the handler's list of
  reported lines is the other import's list with this line inserted. A file that cannot be
  read leaves the model as it was and reports nothing.
\<close>

theorem C6_malformed_line_is_isolated:
  assumes "numeric_field_fails pf raw"
  shows "try_body pf m' (str_strip raw) = Inl ValueError \<and>
         out_model (ImportFromFile fmt pf m (Some (pre @ raw # post))) =
           out_model (ImportFromFile fmt pf m (Some (pre @ post))) \<and>
         out_raised (ImportFromFile fmt pf m (Some (pre @ raw # post))) =
           out_raised (ImportFromFile fmt pf m (Some (pre @ post))) \<and>
         out_report (ImportFromFile fmt pf m (Some (pre @ raw # post))) =
           out_report (ImportFromFile fmt pf m (Some (pre @ post))) \<and>
         (snd (import_loop pf (m, []) pre) = None \<longrightarrow>
            (\<exists>d1 d2. out_diags (ImportFromFile fmt pf m (Some (pre @ post))) = d1 @ d2 \<and>
               out_diags (ImportFromFile fmt pf m (Some (pre @ raw # post))) =
                 d1 @ str_strip raw # d2)) \<and>
         ImportFromFile fmt pf m None =
           \<lparr>out_model = m, out_diags = [], out_raised = None, out_report = None\<rparr>"
proof -
  note loop = import_loop_malformed [OF assms, of m "[]" pre post]
  have diags: "out_diags (ImportFromFile fmt pf m (Some ls)) = snd (fst (import_loop pf (m, []) ls))"
    for ls
    by (simp add: ImportFromFile_Some split: option.splits sum.splits)
  have same: "out_model (ImportFromFile fmt pf m (Some (pre @ raw # post))) =
           out_model (ImportFromFile fmt pf m (Some (pre @ post))) \<and>
         out_raised (ImportFromFile fmt pf m (Some (pre @ raw # post))) =
           out_raised (ImportFromFile fmt pf m (Some (pre @ post))) \<and>
         out_report (ImportFromFile fmt pf m (Some (pre @ raw # post))) =
           out_report (ImportFromFile fmt pf m (Some (pre @ post)))"
    using loop by (simp add: ImportFromFile_Some split: option.splits sum.splits)
  show ?thesis
    using same loop numeric_field_fails_ValueError(1) [OF assms, of m']
    by (simp add: diags) (simp add: ImportFromFile_def)
qed

theorem C6_witness:
  "numeric_field_fails dec_float ''node, C, x, 1'' \<and>
   (\<forall>fmt.
      out_model (ImportFromFile fmt dec_float TrussModel_init (Some ex_lines)) =
        out_model (ImportFromFile fmt dec_float TrussModel_init
          (Some [''# truss'', ''title, T'', ''node, A, 0, 0'', ''node, B, 3, 4'',
                 ''node, A, 1, 1'', ''link, L1, A, B'', ''material, 100, 50, 200000'',
                 ''static_factor, 2''])) \<and>
      out_diags (ImportFromFile fmt dec_float TrussModel_init (Some ex_lines)) =
        [''node, C, x, 1''] \<and>
      out_diags (ImportFromFile fmt dec_float TrussModel_init
          (Some [''# truss'', ''title, T'', ''node, A, 0, 0'', ''node, B, 3, 4'',
                 ''node, A, 1, 1'', ''link, L1, A, B'', ''material, 100, 50, 200000'',
                 ''static_factor, 2''])) = [] \<and>
      map node_name
        (nodes (out_model (ImportFromFile fmt dec_float TrussModel_init (Some ex_lines)))) =
        [''A'', ''B''])"
proof (intro conjI allI)
  show bad: "numeric_field_fails dec_float ''node, C, x, 1''" by (rule ex_node_C_fails)
  fix fmt
  let ?pre = "[''# truss'', ''title, T'', ''node, A, 0, 0'', ''node, B, 3, 4'', ''node, A, 1, 1'']"
  let ?post = "[''link, L1, A, B'', ''material, 100, 50, 200000'', ''static_factor, 2'']"
  have split: "ex_lines = ?pre @ ''node, C, x, 1'' # ?post" by (simp add: ex_lines_def)
  have pre: "snd (import_loop dec_float (TrussModel_init, []) ?pre) = None"
    by (simp add: Let_def ex_lines_strip is_comment_def ex_tb_title ex_tb_node_A
        ex_tb_node_B ex_tb_node_A_again hasNode_def TrussModel_init_def)
  note c6 = C6_malformed_line_is_isolated
              [OF bad, where fmt = fmt and m = TrussModel_init and pre = ?pre and post = ?post]
  obtain rep where imp: "ImportFromFile fmt dec_float TrussModel_init (Some ex_lines) =
     \<lparr>out_model = calcLinkVals ex_loaded, out_diags = [''node, C, x, 1''],
      out_raised = None, out_report = Some rep\<rparr>"
    using ex_import by blast
  show "out_model (ImportFromFile fmt dec_float TrussModel_init (Some ex_lines)) =
        out_model (ImportFromFile fmt dec_float TrussModel_init
          (Some [''# truss'', ''title, T'', ''node, A, 0, 0'', ''node, B, 3, 4'',
                 ''node, A, 1, 1'', ''link, L1, A, B'', ''material, 100, 50, 200000'',
                 ''static_factor, 2'']))"
    using c6 unfolding split by simp
  show "out_diags (ImportFromFile fmt dec_float TrussModel_init (Some ex_lines)) =
        [''node, C, x, 1'']"
    by (simp add: imp)
  from c6 pre obtain d1 d2 where
    d: "out_diags (ImportFromFile fmt dec_float TrussModel_init (Some (?pre @ ?post))) = d1 @ d2"
      "out_diags (ImportFromFile fmt dec_float TrussModel_init
         (Some (?pre @ ''node, C, x, 1'' # ?post))) = d1 @ str_strip ''node, C, x, 1'' # d2"
    by blast
  from d(2) have "d1 @ str_strip ''node, C, x, 1'' # d2 = [''node, C, x, 1'']"
    using imp unfolding split by simp
  then have "d1 = [] \<and> d2 = []"
    by (cases d1) auto
  with d(1) show "out_diags (ImportFromFile fmt dec_float TrussModel_init
          (Some [''# truss'', ''title, T'', ''node, A, 0, 0'', ''node, B, 3, 4'',
                 ''node, A, 1, 1'', ''link, L1, A, B'', ''material, 100, 50, 200000'',
                 ''static_factor, 2''])) = []"
    by simp
  show "map node_name
        (nodes (out_model (ImportFromFile fmt dec_float TrussModel_init (Some ex_lines)))) =
        [''A'', ''B'']"
    by (simp add: imp ex_calcLinkVals) (simp add: ex_loaded_def)
qed

subsection \<open>The name of a link\<close>

text \<open>
  Claim C10. \<^verbatim>\<open>Link.__init__\<close> returns a link with the empty name and no length or angle,
  whatever its \<^verbatim>\<open>name\<close>, \<^verbatim>\<open>length\<close> and \<^verbatim>\<open>angleRad\<close> arguments are. A \<^verbatim>\<open>link\<close> line appends
  a link with the empty name; the name field of the line has no effect. If the links of
  the model at the start all have the empty name (as in a new model, which has none), so
  have all links after \<^verbatim>\<open>ImportFromFile\<close>, the name written to \<^verbatim>\<open>le_LongLinkName\<close> is
  empty, and every row of the report text starts with the tab that follows the name.
\<close>

theorem C10_link_name_is_always_empty:
  "link_name (Link_init nm n1 n2 len ang) = '''' \<and>
   link_length (Link_init nm n1 n2 len ang) = None \<and>
   angleRad (Link_init nm n1 n2 len ang) = None \<and>
   (str_split CHR '','' line = k # p1 # p2 # p3 # rest \<and> str_lower (str_strip k) = ''link'' \<longrightarrow>
      (\<exists>l. try_body pf m line = Inr (m\<lparr>links := links m @ [l]\<rparr>) \<and> link_name l = '''' \<and>
           node1_Name l = str_strip p2 \<and> node2_Name l = str_strip p3)) \<and>
   ((\<forall>l \<in> set (links m). link_name l = '''') \<longrightarrow>
      (\<forall>l \<in> set (links (out_model (ImportFromFile fmt pf m src))). link_name l = '''') \<and>
      (\<forall>rep. out_report (ImportFromFile fmt pf m src) = Some rep \<longrightarrow>
         le_LongLinkName rep = '''' \<and>
         (\<exists>st0 rows.
            report_header fmt (out_model (ImportFromFile fmt pf m src)) = Inr st0 \<and>
            te_Report rep = st0 @ concat rows \<and>
            list_all2 (\<lambda>l row. report_row fmt l = Inr row \<and> hd row = CHR 0x09)
              (links (out_model (ImportFromFile fmt pf m src))) rows)))"
proof -
  have ctor: "link_name (Link_init nm n1 n2 len ang) = '''' \<and>
      link_length (Link_init nm n1 n2 len ang) = None \<and>
      angleRad (Link_init nm n1 n2 len ang) = None"
    by (simp add: Link_init_def)
  have line: "str_split CHR '','' line = k # p1 # p2 # p3 # rest \<and>
      str_lower (str_strip k) = ''link'' \<longrightarrow>
      (\<exists>l. try_body pf m line = Inr (m\<lparr>links := links m @ [l]\<rparr>) \<and> link_name l = '''' \<and>
           node1_Name l = str_strip p2 \<and> node2_Name l = str_strip p3)"
    using try_body_link [of line k p1 p2 p3 rest pf m] by auto
  have imp: "(\<forall>l \<in> set (links m). link_name l = '''') \<longrightarrow>
      (\<forall>l \<in> set (links (out_model (ImportFromFile fmt pf m src))). link_name l = '''') \<and>
      (\<forall>rep. out_report (ImportFromFile fmt pf m src) = Some rep \<longrightarrow>
         le_LongLinkName rep = '''' \<and>
         (\<exists>st0 rows.
            report_header fmt (out_model (ImportFromFile fmt pf m src)) = Inr st0 \<and>
            te_Report rep = st0 @ concat rows \<and>
            list_all2 (\<lambda>l row. report_row fmt l = Inr row \<and> hd row = CHR 0x09)
              (links (out_model (ImportFromFile fmt pf m src))) rows))"
  proof (intro impI conjI allI)
    assume "\<forall>l \<in> set (links m). link_name l = ''''"
    then have "names_empty m" by (simp add: names_empty_def list_all_iff)
    then have ne: "names_empty (out_model (ImportFromFile fmt pf m src))"
      by (rule ImportFromFile_names_empty)
    then show "\<forall>l \<in> set (links (out_model (ImportFromFile fmt pf m src))). link_name l = ''''"
      by (simp add: names_empty_def list_all_iff)
    fix rep assume "out_report (ImportFromFile fmt pf m src) = Some rep"
    then have r: "displayReport fmt (out_model (ImportFromFile fmt pf m src)) = Inr rep"
      by (rule ImportFromFile_report)
    show "le_LongLinkName rep = ''''"
      using displayReport_names_empty(1) [OF ne r] .
    show "\<exists>st0 rows.
            report_header fmt (out_model (ImportFromFile fmt pf m src)) = Inr st0 \<and>
            te_Report rep = st0 @ concat rows \<and>
            list_all2 (\<lambda>l row. report_row fmt l = Inr row \<and> hd row = CHR 0x09)
              (links (out_model (ImportFromFile fmt pf m src))) rows"
      using displayReport_names_empty(2) [OF ne r] .
  qed
  show ?thesis using ctor line imp by blast
qed

theorem C10_witness:
  "(\<exists>l. try_body dec_float TrussModel_init ''link, L1, A, B'' =
          Inr (TrussModel_init\<lparr>links := links TrussModel_init @ [l]\<rparr>) \<and>
        link_name l = '''' \<and> node1_Name l = ''A'' \<and> node2_Name l = ''B'') \<and>
   (\<forall>fmt. \<exists>rep.
      out_report (ImportFromFile fmt dec_float TrussModel_init (Some ex_lines)) = Some rep \<and>
      le_LongLinkName rep = '''' \<and> le_LongLinkNode1 rep = ''A'' \<and>
      map link_name (links (out_model (ImportFromFile fmt dec_float TrussModel_init
        (Some ex_lines)))) = [''''])"
proof (intro conjI allI)
  have s: "str_split CHR '','' ''link, L1, A, B'' = [''link'', '' L1'', '' A'', '' B'']" by simp
  note c10 = C10_link_name_is_always_empty
               [where line = "''link, L1, A, B''" and k = "''link''" and ?p1.0 = "'' L1''"
                  and ?p2.0 = "'' A''" and ?p3.0 = "'' B''" and rest = "[]" and pf = dec_float
                  and m = TrussModel_init and src = "Some ex_lines"]
  from c10 s ex_kw_link
  have "\<exists>l. try_body dec_float TrussModel_init ''link, L1, A, B'' =
          Inr (TrussModel_init\<lparr>links := links TrussModel_init @ [l]\<rparr>) \<and>
        link_name l = '''' \<and> node1_Name l = str_strip '' A'' \<and> node2_Name l = str_strip '' B''"
    by blast
  then show "\<exists>l. try_body dec_float TrussModel_init ''link, L1, A, B'' =
          Inr (TrussModel_init\<lparr>links := links TrussModel_init @ [l]\<rparr>) \<and>
        link_name l = '''' \<and> node1_Name l = ''A'' \<and> node2_Name l = ''B''"
    by (simp add: ex_strip)
  fix fmt
  obtain rep where imp: "ImportFromFile fmt dec_float TrussModel_init (Some ex_lines) =
     \<lparr>out_model = calcLinkVals ex_loaded, out_diags = [''node, C, x, 1''],
      out_raised = None, out_report = Some rep\<rparr>"
    using ex_import by blast
  have rep: "out_report (ImportFromFile fmt dec_float TrussModel_init (Some ex_lines)) = Some rep"
    by (simp add: imp)
  have "\<forall>l \<in> set (links TrussModel_init). link_name l = ''''"
    by (simp add: TrussModel_init_def)
  with c10 [where fmt = fmt] rep have nm: "le_LongLinkName rep = ''''" by blast
  from ex_report [of fmt] imp have n1: "le_LongLinkNode1 rep = ''A''"
    by (auto simp: ImportFromFile_def ex_import_loop)
  have ls: "map link_name (links (out_model (ImportFromFile fmt dec_float TrussModel_init
        (Some ex_lines)))) = ['''']"
    by (simp add: imp ex_calcLinkVals)
  show "\<exists>rep.
      out_report (ImportFromFile fmt dec_float TrussModel_init (Some ex_lines)) = Some rep \<and>
      le_LongLinkName rep = '''' \<and> le_LongLinkNode1 rep = ''A'' \<and>
      map link_name (links (out_model (ImportFromFile fmt dec_float TrussModel_init
        (Some ex_lines)))) = ['''']"
    using rep nm n1 ls by (intro exI [of _ rep] conjI)
qed

subsection \<open>A report without a measured link\<close>

lemma ex_tb_link_Z:
  "try_body dec_float m ''link, L1, A, Z'' =
     Inr (m\<lparr>links := links m @ [ex_dangling]\<rparr>)"
  using try_body_link [OF ex_split_link ex_kw_link, of dec_float m]
  by (simp add: ex_strip ex_dangling_def)

lemma ex_no_links_loop:
  "import_loop dec_float (TrussModel_init, [])
     [''material, 100, 50, 200000'', ''static_factor, 2'', ''node, A, 0, 0'', ''node, B, 3, 4''] =
   ((ex_truss\<lparr>title := None, links := []\<rparr>, []), None)"
  by (simp add: Let_def ex_lines_strip is_comment_def ex_tb_node_A ex_tb_node_B ex_tb_material
        ex_tb_static hasNode_def TrussModel_init_def Material_init_def ex_truss_def)

lemma ex_dangling_loop:
  "import_loop dec_float (TrussModel_init, [])
     [''material, 100, 50, 200000'', ''static_factor, 2'', ''node, A, 0, 0'', ''node, B, 3, 4'',
      ''link, L1, A, Z''] =
   ((ex_truss\<lparr>title := None, links := [ex_dangling]\<rparr>, []), None)"
proof -
  have s: "str_strip ''link, L1, A, Z'' = ''link, L1, A, Z''" by (simp add: ex_strip)
  show ?thesis
    by (simp add: Let_def ex_lines_strip s is_comment_def ex_tb_node_A ex_tb_node_B
          ex_tb_material ex_tb_static ex_tb_link_Z hasNode_def TrussModel_init_def
          Material_init_def ex_truss_def)
qed

lemma ex_truss_header:
  "\<exists>st0. report_header fmt (calcLinkVals (ex_truss\<lparr>title := None, links := ls\<rparr>)) = Inr st0"
  by (simp add: report_header_def fmt_opt_def ex_truss_def calcLinkVals_def)

lemma ex_dangling_unresolved:
  "calcLink (ex_truss\<lparr>title := None, links := ls\<rparr>) ex_dangling = ex_dangling"
  by (rule calcLink_unresolved) (simp add: ex_dangling_def hasNode_def ex_truss_def)

text \<open>
  Claim C9. The report needs a link with a length, and the claim asks for an explicit
  error when there is none. The code has no such check. For a file with a material, a
  static factor and two nodes but no link, \<^verbatim>\<open>displayReport\<close> raises \<^verbatim>\<open>AttributeError\<close>, from
  reading \<^verbatim>\<open>longest.name\<close> of \<^verbatim>\<open>None\<close>, and \<^verbatim>\<open>ImportFromFile\<close> ends with that exception.
  For the same file with one link to a node that does not exist, it raises \<^verbatim>\<open>TypeError\<close>,
  from formatting the unset length.
\<close>

theorem C9_report_faults_without_measured_links:
  "displayReport fmt (calcLinkVals (ex_truss\<lparr>title := None, links := []\<rparr>)) =
     Inl AttributeError \<and>
   displayReport fmt (calcLinkVals (ex_truss\<lparr>title := None, links := [ex_dangling]\<rparr>)) =
     Inl TypeError \<and>
   out_raised (ImportFromFile fmt dec_float TrussModel_init
     (Some [''material, 100, 50, 200000'', ''static_factor, 2'', ''node, A, 0, 0'',
            ''node, B, 3, 4''])) = Some AttributeError \<and>
   out_raised (ImportFromFile fmt dec_float TrussModel_init
     (Some [''material, 100, 50, 200000'', ''static_factor, 2'', ''node, A, 0, 0'',
            ''node, B, 3, 4'', ''link, L1, A, Z''])) = Some TypeError"
proof -
  have a: "displayReport fmt (calcLinkVals (ex_truss\<lparr>title := None, links := []\<rparr>)) =
             Inl AttributeError"
  proof -
    obtain st0 where
      st0: "report_header fmt (calcLinkVals (ex_truss\<lparr>title := None, links := []\<rparr>)) = Inr st0"
      using ex_truss_header by blast
    have ls: "links (calcLinkVals (ex_truss\<lparr>title := None, links := []\<rparr>)) = []"
      by (simp add: calcLinkVals_def)
    show ?thesis by (simp add: displayReport_def st0 ls)
  qed
  have b: "displayReport fmt (calcLinkVals (ex_truss\<lparr>title := None, links := [ex_dangling]\<rparr>)) =
             Inl TypeError"
  proof -
    obtain st0 where
      st0: "report_header fmt (calcLinkVals (ex_truss\<lparr>title := None, links := [ex_dangling]\<rparr>)) =
              Inr st0"
      using ex_truss_header by blast
    have ls: "links (calcLinkVals (ex_truss\<lparr>title := None, links := [ex_dangling]\<rparr>)) =
                [ex_dangling]"
      by (simp add: calcLinkVals_def ex_dangling_unresolved)
    show ?thesis
      unfolding displayReport_def st0 ls
      by (simp add: is_longer_def report_row_def fmt_opt_def ex_dangling_def)
  qed
  show ?thesis
    by (simp add: ImportFromFile_def ex_no_links_loop ex_dangling_loop a b del: import_loop.simps)
qed

end
